theory Spec2Isabelle
  imports Main
begin

section \<open>Members-only message board: the request handlers of controllers/index.js\<close>

text \<open>
  Every handler of \<^verbatim>\<open>controllers/index.js\<close> is an Express middleware, or an array of
  middlewares: the express-validator chains first, the function \<^verbatim>\<open>(req, res, next)\<close> last.
  A handler is modelled as a function from the request and the store to the list of calls it
  makes on \<^verbatim>\<open>res\<close> and \<^verbatim>\<open>next\<close>, in order, and the store it leaves behind.

  Strings are lists of 8-bit characters, read as code units below 256. An ObjectId is
  represented by its string form.
\<close>

subsection \<open>Data model\<close>

type_synonym object_id = string

text \<open>
  Modelled from the spec: the User schema (\<^verbatim>\<open>models/user.js\<close> is not among the sources):
  username, first and last name, password hash, boolean membership status. \<open>oid\<close> is the
  document's \<^verbatim>\<open>_id\<close> (\<^verbatim>\<open>req.user.id\<close>).
\<close>

record user =
  oid :: object_id
  first_name :: string
  last_name :: string
  username :: string
  password :: string
  membership_status :: bool

text \<open>
  Modelled from the spec: the Message schema (\<^verbatim>\<open>models/message.js\<close> is not among the
  sources): a reference to the author, a title and a text. The fields \<^verbatim>\<open>user\<close>,
  \<^verbatim>\<open>title\<close>, \<^verbatim>\<open>text\<close> are \<open>msg_user\<close>, \<open>msg_title\<close>, \<open>msg_text\<close>; \<open>mid\<close> is \<^verbatim>\<open>_id\<close>.
\<close>

record message =
  mid :: object_id
  msg_user :: object_id
  msg_title :: string
  msg_text :: string

text \<open>The two collections, each in the order of insertion.\<close>

record db =
  users :: "user list"
  messages :: "message list"

text \<open>\<^verbatim>\<open>req.body\<close> and \<^verbatim>\<open>req.params\<close>: objects from field names to strings.\<close>

type_synonym body = "(string \<times> string) list"

text \<open>
  An entry of \<^verbatim>\<open>errors.array()\<close>. express-validator fills all four fields; the literal
  that \<^verbatim>\<open>signup_post\<close> builds for a taken username has \<^verbatim>\<open>param\<close> and \<^verbatim>\<open>msg\<close> only.
\<close>

record field_error =
  "value" :: "string option"
  msg :: string
  param :: string
  location :: "string option"

text \<open>
  \<^verbatim>\<open>TypeError\<close> is what reading a property of \<^verbatim>\<open>undefined\<close> throws; \<open>Error m s\<close> is
  \<^verbatim>\<open>new Error(m)\<close> with its \<^verbatim>\<open>status\<close>, if one was set.
\<close>

datatype error = TypeError | Error string "nat option"

text \<open>
  The request as Express delivers it: \<^verbatim>\<open>req.user\<close> (absent when nobody is logged in),
  \<^verbatim>\<open>req.body\<close> and \<^verbatim>\<open>req.params\<close>.
\<close>

record request =
  req_user :: "user option"
  req_body :: body
  req_params :: body

text \<open>
  The request on its way through the validation chains: express-validator keeps on it the
  errors recorded so far, which \<^verbatim>\<open>validationResult\<close> reads.
\<close>

record checked_request = request +
  validation_errors :: "field_error list"

text \<open>The values a view receives, as in the object literal passed to \<^verbatim>\<open>res.render\<close>.\<close>

datatype local_value =
    Str string
  | SessionUser "user option"
  | Body body
  | Errors "field_error list"
  | PopulatedMessage message "user option"

text \<open>
  The calls a handler makes: \<^verbatim>\<open>res.render(view, locals)\<close>, \<^verbatim>\<open>res.redirect(path)\<close>,
  \<^verbatim>\<open>next(error)\<close>, and an exception that leaves the handler uncaught.
\<close>

datatype action =
    Render string "(string \<times> local_value) list"
  | Redirect string
  | Next error
  | Throw error

text \<open>
  The operations of the collaborators (bcryptjs, mongoose) that report failure through a
  rejected promise or the \<^verbatim>\<open>err\<close> argument of a callback.
\<close>

datatype operation =
    Bcrypt_hash
  | User_findOne
  | User_save
  | User_findById
  | Message_save
  | Message_findById
  | Message_findByIdAndRemove

text \<open>
  What a request finds around it: \<^verbatim>\<open>process.env.MEMBER_SECRET\<close> (\<open>None\<close> when unset), the
  hash bcryptjs returns for a password and a number of rounds, the \<^verbatim>\<open>_id\<close> mongoose gives
  to a document created in this request, and the failure, if any, that each operation of a
  collaborator reports (a store that cannot be reached, a document the schema rejects, an id
  that cannot be cast).
\<close>

record env =
  MEMBER_SECRET :: "string option"
  bcrypt_hash :: "string \<Rightarrow> nat \<Rightarrow> string"
  new_ObjectId :: object_id
  faults :: "operation \<Rightarrow> error option"

subsection \<open>validator.js: sanitizers and validators\<close>

text \<open>JavaScript's \<^verbatim>\<open>\s\<close>, below 256: tab, LF, VT, FF, CR, space and the no-break space.\<close>

definition is_space :: "char \<Rightarrow> bool" where
  "is_space c = (of_char c \<in> {9, 10, 11, 12, 13, 32, 160 :: nat})"

definition trim :: "string \<Rightarrow> string" where
  "trim s = rev (dropWhile is_space (rev (dropWhile is_space s)))"

definition is_letter :: "char \<Rightarrow> bool" where
  "is_letter c = (let n = (of_char c :: nat) in (65 \<le> n \<and> n \<le> 90) \<or> (97 \<le> n \<and> n \<le> 122))"

definition is_digit :: "char \<Rightarrow> bool" where
  "is_digit c = (let n = (of_char c :: nat) in 48 \<le> n \<and> n \<le> 57)"

text \<open>\<^verbatim>\<open>/^[A-Z]+$/i\<close> and \<^verbatim>\<open>/^[0-9A-Z]+$/i\<close>: non-empty, every character in the class.\<close>

definition isAlpha :: "string \<Rightarrow> bool" where
  "isAlpha s = (s \<noteq> [] \<and> list_all is_letter s)"

definition isAlphanumeric :: "string \<Rightarrow> bool" where
  "isAlphanumeric s = (s \<noteq> [] \<and> list_all (\<lambda>c. is_letter c \<or> is_digit c) s)"

definition isLength :: "nat \<Rightarrow> string \<Rightarrow> bool" where
  "isLength min_len s = (min_len \<le> length s)"

text \<open>\<^verbatim>\<open>escape\<close> replaces the eight characters \<^verbatim>\<open>& " ' < > / \ `\<close> by HTML entities.\<close>

definition escape_char :: "char \<Rightarrow> string" where
  "escape_char c =
     (let n = (of_char c :: nat) in
      if n = 38 then ''&amp;''
      else if n = 34 then ''&quot;''
      else if n = 39 then ''&#x27;''
      else if n = 60 then ''&lt;''
      else if n = 62 then ''&gt;''
      else if n = 47 then ''&#x2F;''
      else if n = 92 then ''&#x5C;''
      else if n = 96 then ''&#96;''
      else [c])"

definition escape :: "string \<Rightarrow> string" where
  "escape s = concat (map escape_char s)"

subsection \<open>express-validator: chains on the request body\<close>

text \<open>\<^verbatim>\<open>req.body[k]\<close> as the chains read it: a missing field reads as the empty string.\<close>

definition field :: "body \<Rightarrow> string \<Rightarrow> string" where
  "field b k = (case map_of b k of None \<Rightarrow> [] | Some v \<Rightarrow> v)"

fun set_field :: "string \<Rightarrow> string \<Rightarrow> body \<Rightarrow> body" where
  "set_field k v [] = [(k, v)]"
| "set_field k v ((k', v') # b) =
     (if k' = k then (k, v) # b else (k', v') # set_field k v b)"

text \<open>
  \<^verbatim>\<open>body(fld).sanitizer().validator()\<close>: the sanitized value is written back to
  \<^verbatim>\<open>req.body\<close>, then the validator sees it; a validator answers with the message of its
  failure, if it fails.
\<close>

definition body_chain ::
  "string \<Rightarrow> (string \<Rightarrow> string) \<Rightarrow> (string \<Rightarrow> checked_request \<Rightarrow> string option) \<Rightarrow>
   checked_request \<Rightarrow> checked_request" where
  "body_chain fld sanitizer validator req =
     (let v = sanitizer (field (req_body req) fld);
          req' = req\<lparr>req_body := set_field fld v (req_body req)\<rparr>
      in case validator v req' of
           None \<Rightarrow> req'
         | Some m \<Rightarrow>
             req'\<lparr>validation_errors := validation_errors req' @
                    [\<lparr>value = Some v, msg = m, param = fld, location = Some ''body''\<rparr>]\<rparr>)"

text \<open>A standard validator with the message given to \<^verbatim>\<open>body(fld, message)\<close>.\<close>

definition standard ::
  "string \<Rightarrow> (string \<Rightarrow> bool) \<Rightarrow> string \<Rightarrow> checked_request \<Rightarrow> string option" where
  "standard m p v req = (if p v then None else Some m)"

text \<open>\<^verbatim>\<open>body('*').escape()\<close>: every field of the body, no validator.\<close>

definition escape_all :: "checked_request \<Rightarrow> checked_request" where
  "escape_all req = req\<lparr>req_body := map (\<lambda>(k, v). (k, escape v)) (req_body req)\<rparr>"

definition validationResult :: "checked_request \<Rightarrow> field_error list" where
  "validationResult req = validation_errors req"

text \<open>
  The chains of an array run in order, each on the request the last one left; a request
  arrives with no error recorded.
\<close>

definition on_arrival :: "request \<Rightarrow> checked_request" where
  "on_arrival req =
     \<lparr>req_user = req_user req, req_body = req_body req, req_params = req_params req,
      validation_errors = []\<rparr>"

definition run_chains ::
  "(checked_request \<Rightarrow> checked_request) list \<Rightarrow> request \<Rightarrow> checked_request" where
  "run_chains cs req = foldl (\<lambda>r c. c r) (on_arrival req) cs"

subsection \<open>mongoose and bcryptjs: the operations the handlers call\<close>

text \<open>
  An update or a removal by \<^verbatim>\<open>_id\<close> touches one document, the first that matches, and
  none when no document matches.
\<close>

fun replace_first :: "('a \<Rightarrow> bool) \<Rightarrow> 'a \<Rightarrow> 'a list \<Rightarrow> 'a list" where
  "replace_first p y [] = []"
| "replace_first p y (x # xs) = (if p x then y # xs else x # replace_first p y xs)"

fun remove_first :: "('a \<Rightarrow> bool) \<Rightarrow> 'a list \<Rightarrow> 'a list" where
  "remove_first p [] = []"
| "remove_first p (x # xs) = (if p x then xs else x # remove_first p xs)"

text \<open>\<^verbatim>\<open>bcrypt.hash(password, rounds)\<close>: the hash, or the rejection of the promise.\<close>

definition hash_password :: "env \<Rightarrow> string \<Rightarrow> nat \<Rightarrow> error + string" where
  "hash_password e pw rounds =
     (case faults e Bcrypt_hash of Some err \<Rightarrow> Inl err | None \<Rightarrow> Inr (bcrypt_hash e pw rounds))"

text \<open>\<^verbatim>\<open>User.findOne({ username })\<close>: the first user with that username.\<close>

definition findOne_user :: "env \<Rightarrow> string \<Rightarrow> db \<Rightarrow> error + user option" where
  "findOne_user e name d =
     (case faults e User_findOne of
        Some err \<Rightarrow> Inl err
      | None \<Rightarrow> Inr (find (\<lambda>u. username u = name) (users d)))"

text \<open>\<^verbatim>\<open>save\<close> of a document made with \<^verbatim>\<open>new User\<close>: an insertion.\<close>

definition save_new_user :: "env \<Rightarrow> user \<Rightarrow> db \<Rightarrow> error + db" where
  "save_new_user e u d =
     (case faults e User_save of
        Some err \<Rightarrow> Inl err
      | None \<Rightarrow> Inr (d\<lparr>users := users d @ [u]\<rparr>))"

text \<open>
  \<^verbatim>\<open>User.findById(req.user)\<close>: the document is cast to its \<^verbatim>\<open>_id\<close>; for
  \<^verbatim>\<open>undefined\<close> mongoose asks for \<^verbatim>\<open>_id: null\<close>, which no document has.
\<close>

definition findById_user :: "env \<Rightarrow> user option \<Rightarrow> db \<Rightarrow> error + user option" where
  "findById_user e ru d =
     (case faults e User_findById of
        Some err \<Rightarrow> Inl err
      | None \<Rightarrow>
          (case ru of
             None \<Rightarrow> Inr None
           | Some su \<Rightarrow> Inr (find (\<lambda>u. oid u = oid su) (users d))))"

text \<open>\<^verbatim>\<open>save\<close> of a document read from the store: an update of the one with its \<^verbatim>\<open>_id\<close>.\<close>

definition save_user :: "env \<Rightarrow> user \<Rightarrow> db \<Rightarrow> error + db" where
  "save_user e u d =
     (case faults e User_save of
        Some err \<Rightarrow> Inl err
      | None \<Rightarrow> Inr (d\<lparr>users := replace_first (\<lambda>x. oid x = oid u) u (users d)\<rparr>))"

text \<open>\<^verbatim>\<open>save\<close> of a document made with \<^verbatim>\<open>new Message\<close>: an insertion.\<close>

definition save_new_message :: "env \<Rightarrow> message \<Rightarrow> db \<Rightarrow> error + db" where
  "save_new_message e m d =
     (case faults e Message_save of
        Some err \<Rightarrow> Inl err
      | None \<Rightarrow> Inr (d\<lparr>messages := messages d @ [m]\<rparr>))"

text \<open>\<^verbatim>\<open>Message.findById(id).populate('user')\<close>: the message with its author, if still there.\<close>

definition findById_message :: "env \<Rightarrow> object_id \<Rightarrow> db \<Rightarrow> error + (message \<times> user option) option" where
  "findById_message e i d =
     (case faults e Message_findById of
        Some err \<Rightarrow> Inl err
      | None \<Rightarrow>
          Inr (map_option (\<lambda>m. (m, find (\<lambda>u. oid u = msg_user m) (users d)))
                 (find (\<lambda>m. mid m = i) (messages d))))"

text \<open>
  \<^verbatim>\<open>Message.findByIdAndRemove(id, callback)\<close>: removes the first message with that id;
  when there is none, nothing is removed and no error is reported.
\<close>

definition findByIdAndRemove_message :: "env \<Rightarrow> object_id \<Rightarrow> db \<Rightarrow> error + db" where
  "findByIdAndRemove_message e i d =
     (case faults e Message_findByIdAndRemove of
        Some err \<Rightarrow> Inl err
      | None \<Rightarrow> Inr (d\<lparr>messages := remove_first (\<lambda>m. mid m = i) (messages d)\<rparr>))"

subsection \<open>The handlers\<close>

text \<open>
  \<^verbatim>\<open>signup_post\<close>: five validation chains, then the handler. The confirmation is compared
  with \<^verbatim>\<open>req.body.password\<close>, which the chain before it has trimmed. In the handler,
  everything after the validation check is inside \<^verbatim>\<open>try\<close>: whatever bcryptjs or mongoose
  rejects with goes to \<^verbatim>\<open>next\<close>.
\<close>

definition signup_post_chains :: "(checked_request \<Rightarrow> checked_request) list" where
  "signup_post_chains =
     [body_chain ''firstname'' trim (standard ''Invalid first name'' isAlpha),
      body_chain ''lastname'' trim (standard ''Invalid last name'' isAlpha),
      body_chain ''username'' trim (standard ''Invalid username'' isAlphanumeric),
      body_chain ''password'' trim (standard ''Invalid password'' (isLength 6)),
      body_chain ''confirmpassword'' trim
        (\<lambda>v req. if v \<noteq> field (req_body req) ''password''
                  then Some ''Password confirmation does not match password''
                  else None)]"

definition signup_post_handler :: "env \<Rightarrow> checked_request \<Rightarrow> db \<Rightarrow> action list \<times> db" where
  "signup_post_handler e req d =
     (let errors = validationResult req in
      if errors \<noteq> [] then
        ([Render ''signup_form''
            [(''title'', Str ''Sign Up''), (''user'', Body (req_body req)),
             (''errors'', Errors errors)]], d)
      else
        (case hash_password e (field (req_body req) ''password'') 10 of
           Inl err \<Rightarrow> ([Next err], d)
         | Inr hash \<Rightarrow>
             (let new_user =
                    \<lparr>oid = new_ObjectId e,
                     first_name = field (req_body req) ''firstname'',
                     last_name = field (req_body req) ''lastname'',
                     username = field (req_body req) ''username'',
                     password = hash,
                     membership_status = False\<rparr>
              in case findOne_user e (username new_user) d of
                   Inl err \<Rightarrow> ([Next err], d)
                 | Inr (Some found_user) \<Rightarrow>
                     ([Render ''signup_form''
                         [(''title'', Str ''Sign Up''), (''user'', Body (req_body req)),
                          (''errors'',
                           Errors [\<lparr>value = None, msg = ''Username already in use.'',
                                    param = ''username'', location = None\<rparr>])]], d)
                 | Inr None \<Rightarrow>
                     (case save_new_user e new_user d of
                        Inl err \<Rightarrow> ([Next err], d)
                      | Inr d' \<Rightarrow> ([Redirect ''/login''], d')))))"

definition signup_post :: "env \<Rightarrow> request \<Rightarrow> db \<Rightarrow> action list \<times> db" where
  "signup_post e req d = signup_post_handler e (run_chains signup_post_chains req) d"

text \<open>\<^verbatim>\<open>message_create_post\<close>: two validation chains, the escape of every field, the handler.\<close>

definition message_create_post_chains :: "(checked_request \<Rightarrow> checked_request) list" where
  "message_create_post_chains =
     [body_chain ''title'' trim (standard ''Invalid title'' (isLength 1)),
      body_chain ''message'' trim (standard ''Invalid message'' (isLength 1)),
      escape_all]"

text \<open>
  The branch "Request Data is valid": \<^verbatim>\<open>new Message({ user: req.user.id, ... })\<close>, then
  \<^verbatim>\<open>message.save\<close>. Reading \<^verbatim>\<open>id\<close> of an absent \<^verbatim>\<open>req.user\<close> throws.
\<close>

definition create_message :: "env \<Rightarrow> checked_request \<Rightarrow> db \<Rightarrow> action list \<times> db" where
  "create_message e req d =
     (case req_user req of
        None \<Rightarrow> ([Throw TypeError], d)
      | Some u \<Rightarrow>
          (let new_message =
                 \<lparr>mid = new_ObjectId e,
                  msg_user = oid u,
                  msg_title = field (req_body req) ''title'',
                  msg_text = field (req_body req) ''message''\<rparr>
           in case save_new_message e new_message d of
                Inl err \<Rightarrow> ([Next err], d)
              | Inr d' \<Rightarrow> ([Redirect ''/''], d')))"

text \<open>
  The redirect of the login check is not returned: the handler goes on, and what it does
  next comes after the redirect in the list.
\<close>

definition message_create_post_handler :: "env \<Rightarrow> checked_request \<Rightarrow> db \<Rightarrow> action list \<times> db" where
  "message_create_post_handler e req d =
     (let checked = (if req_user req = None then [Redirect ''/login''] else []);
          errors = validationResult req
      in if errors \<noteq> [] then
           (checked @
            [Render ''message_form''
               [(''title'', Str ''Create Message''), (''user'', SessionUser (req_user req)),
                (''message'', Body (req_body req)), (''errors'', Errors errors)]], d)
         else
           (case create_message e req d of (acts, d') \<Rightarrow> (checked @ acts, d')))"

definition message_create_post :: "env \<Rightarrow> request \<Rightarrow> db \<Rightarrow> action list \<times> db" where
  "message_create_post e req d =
     message_create_post_handler e (run_chains message_create_post_chains req) d"

text \<open>
  \<^verbatim>\<open>membership_post\<close>: one chain comparing the trimmed password with the secret, then the
  handler, which never looks at whether somebody is logged in.
\<close>

definition membership_post_chains :: "env \<Rightarrow> (checked_request \<Rightarrow> checked_request) list" where
  "membership_post_chains e =
     [body_chain ''password'' trim
        (\<lambda>v req. if Some v \<noteq> MEMBER_SECRET e
                  then Some ''Sorry, password is incorrect.''
                  else None)]"

definition membership_post_handler :: "env \<Rightarrow> checked_request \<Rightarrow> db \<Rightarrow> action list \<times> db" where
  "membership_post_handler e req d =
     (let errors = validationResult req in
      if errors \<noteq> [] then
        ([Render ''membership_form''
            [(''title'', Str ''Membership form''), (''user'', SessionUser (req_user req)),
             (''errors'', Errors errors)]], d)
      else
        (case findById_user e (req_user req) d of
           Inl err \<Rightarrow> ([Next err], d)
         | Inr None \<Rightarrow> ([Next (Error ''User not found'' (Some 404))], d)
         | Inr (Some found) \<Rightarrow>
             (case save_user e (found\<lparr>membership_status := True\<rparr>) d of
                Inl err \<Rightarrow> ([Next err], d)
              | Inr d' \<Rightarrow> ([Redirect ''/''], d'))))"

definition membership_post :: "env \<Rightarrow> request \<Rightarrow> db \<Rightarrow> action list \<times> db" where
  "membership_post e req d =
     membership_post_handler e (run_chains (membership_post_chains e) req) d"

text \<open>
  \<^verbatim>\<open>message_delete_get\<close> and \<^verbatim>\<open>message_delete_post\<close>: both return at once when nobody
  is logged in. The first reads the id from the route, the second from the body field
  \<^verbatim>\<open>message\<close>, and its callback looks at \<^verbatim>\<open>err\<close> only.
\<close>

definition message_delete_get :: "env \<Rightarrow> request \<Rightarrow> db \<Rightarrow> action list \<times> db" where
  "message_delete_get e req d =
     (if req_user req = None then ([Redirect ''/login''], d)
      else
        (case findById_message e (field (req_params req) ''id'') d of
           Inl err \<Rightarrow> ([Next err], d)
         | Inr None \<Rightarrow> ([Next (Error ''Message not found'' (Some 404))], d)
         | Inr (Some (m, author)) \<Rightarrow>
             ([Render ''message_delete''
                 [(''title'', Str ''Delete message''), (''user'', SessionUser (req_user req)),
                  (''message'', PopulatedMessage m author)]], d)))"

definition message_delete_post :: "env \<Rightarrow> request \<Rightarrow> db \<Rightarrow> action list \<times> db" where
  "message_delete_post e req d =
     (if req_user req = None then ([Redirect ''/login''], d)
      else
        (case findByIdAndRemove_message e (field (req_body req) ''message'') d of
           Inl err \<Rightarrow> ([Next err], d)
         | Inr d' \<Rightarrow> ([Redirect ''/''], d')))"

subsection \<open>A small store and a few requests, for the examples\<close>

text \<open>
  The environment of the examples: the secret is \<^verbatim>\<open>s3cret\<close>, no operation fails, and a
  stand-in takes the place of bcryptjs (it prefixes the reversed password).
\<close>

definition example_env :: env where
  "example_env =
     \<lparr>MEMBER_SECRET = Some ''s3cret'',
      bcrypt_hash = (\<lambda>pw rounds. ''$2a$10$'' @ rev pw),
      new_ObjectId = ''0009'',
      faults = (\<lambda>op. None)\<rparr>"

text \<open>The same, with a secret that starts with a space.\<close>

definition padded_env :: env where
  "padded_env = example_env\<lparr>MEMBER_SECRET := Some '' s3cret''\<rparr>"

definition alice :: user where
  "alice =
     \<lparr>oid = ''0001'', first_name = ''Alice'', last_name = ''Smith'', username = ''alice'',
      password = ''$2a$10$1terces'', membership_status = False\<rparr>"

definition bob :: user where
  "bob =
     \<lparr>oid = ''0002'', first_name = ''Bob'', last_name = ''Jones'', username = ''bob'',
      password = ''$2a$10$2terces'', membership_status = False\<rparr>"

definition hello :: message where
  "hello =
     \<lparr>mid = ''0101'', msg_user = ''0002'', msg_title = ''Hello'', msg_text = ''First post''\<rparr>"

definition example_db :: db where
  "example_db = \<lparr>users = [alice, bob], messages = [hello]\<rparr>"

definition signup_request :: "string \<Rightarrow> string \<Rightarrow> string \<Rightarrow> string \<Rightarrow> request" where
  "signup_request first uname pw confirm =
     \<lparr>req_user = None,
      req_body = [(''firstname'', first), (''lastname'', ''Doe''), (''username'', uname),
                  (''password'', pw), (''confirmpassword'', confirm)],
      req_params = []\<rparr>"

definition create_request :: "user option \<Rightarrow> string \<Rightarrow> string \<Rightarrow> request" where
  "create_request su t m =
     \<lparr>req_user = su, req_body = [(''title'', t), (''message'', m)], req_params = []\<rparr>"

definition membership_request :: "user option \<Rightarrow> string \<Rightarrow> request" where
  "membership_request su pw = \<lparr>req_user = su, req_body = [(''password'', pw)], req_params = []\<rparr>"

definition delete_request :: "string \<Rightarrow> string \<Rightarrow> request" where
  "delete_request param_id body_id =
     \<lparr>req_user = Some alice, req_body = [(''message'', body_id)], req_params = [(''id'', param_id)]\<rparr>"

lemmas examples = example_env_def alice_def bob_def hello_def example_db_def

lemmas validator_defs =
  trim_def is_space_def isAlpha_def isAlphanumeric_def is_letter_def is_digit_def
  isLength_def escape_def escape_char_def field_def

section \<open>Properties\<close>

subsection \<open>Fields, chains and lists\<close>

lemma field_set_field: "field (set_field k v b) k' = (if k' = k then v else field b k')"
  by (induction b) (auto simp: field_def)

lemma escape_Nil: "escape [] = []"
  by (simp add: escape_def)

lemma field_escaped: "field (map (\<lambda>(k, v). (k, escape v)) b) k = escape (field b k)"
  by (induction b) (auto simp: field_def escape_Nil)

lemma body_chain_user: "req_user (body_chain f s v r) = req_user r"
  by (simp add: body_chain_def Let_def split: option.splits)

lemma body_chain_params: "req_params (body_chain f s v r) = req_params r"
  by (simp add: body_chain_def Let_def split: option.splits)

lemma body_chain_body:
  "req_body (body_chain f s v r) = set_field f (s (field (req_body r) f)) (req_body r)"
  by (simp add: body_chain_def Let_def split: option.splits)

lemma body_chain_errors:
  "validation_errors (body_chain f s v r) =
     validation_errors r @
     (case v (s (field (req_body r) f))
             (r\<lparr>req_body := set_field f (s (field (req_body r) f)) (req_body r)\<rparr>) of
        None \<Rightarrow> []
      | Some m \<Rightarrow>
          [\<lparr>value = Some (s (field (req_body r) f)), msg = m, param = f,
            location = Some ''body''\<rparr>])"
  by (simp add: body_chain_def Let_def split: option.splits)

lemmas chain_simps =
  body_chain_user body_chain_params body_chain_body body_chain_errors field_set_field

text \<open>The first element that satisfies \<open>p\<close>, and what replacing or removing it does.\<close>

lemma find_holds: "find p xs = Some m \<Longrightarrow> p m"
  by (induction xs) (auto split: if_splits)

lemma find_split:
  "find p xs = Some u \<Longrightarrow>
   \<exists>us1 us2. xs = us1 @ u # us2 \<and> (\<forall>x\<in>set us1. \<not> p x) \<and>
             replace_first p y xs = us1 @ y # us2"
proof (induction xs)
  case Nil
  then show ?case by simp
next
  case (Cons x xs)
  show ?case
  proof (cases "p x")
    case True
    with Cons.prems have "x = u" by simp
    with True show ?thesis by (intro exI [of _ "[]"] exI [of _ xs]) simp
  next
    case False
    with Cons.prems have "find p xs = Some u" by simp
    from Cons.IH [OF this] obtain us1 us2 where
      "xs = us1 @ u # us2" "\<forall>x\<in>set us1. \<not> p x" "replace_first p y xs = us1 @ y # us2"
      by blast
    with False show ?thesis by (intro exI [of _ "x # us1"] exI [of _ us2]) simp
  qed
qed

lemma find_replace_first:
  "find p xs = Some u \<Longrightarrow> p y \<Longrightarrow> find p (replace_first p y xs) = Some y"
  by (induction xs) (auto split: if_splits)

lemma remove_first_found: "find p xs = Some m \<Longrightarrow> remove_first p xs = remove1 m xs"
  by (induction xs) (auto split: if_splits dest: find_holds)

lemma remove_first_absent: "find p xs = None \<Longrightarrow> remove_first p xs = xs"
  by (induction xs) (auto split: if_splits)

subsection \<open>What the chains of each handler leave on the request\<close>

lemma signup_chains_body:
  "req_body (run_chains signup_post_chains req) =
     set_field ''confirmpassword'' (trim (field (req_body req) ''confirmpassword''))
       (set_field ''password'' (trim (field (req_body req) ''password''))
         (set_field ''username'' (trim (field (req_body req) ''username''))
           (set_field ''lastname'' (trim (field (req_body req) ''lastname''))
             (set_field ''firstname'' (trim (field (req_body req) ''firstname''))
               (req_body req)))))"
  by (simp add: run_chains_def signup_post_chains_def chain_simps on_arrival_def)

lemma signup_chains_fields:
  "field (req_body (run_chains signup_post_chains req)) ''firstname'' =
     trim (field (req_body req) ''firstname'')"
  "field (req_body (run_chains signup_post_chains req)) ''lastname'' =
     trim (field (req_body req) ''lastname'')"
  "field (req_body (run_chains signup_post_chains req)) ''username'' =
     trim (field (req_body req) ''username'')"
  "field (req_body (run_chains signup_post_chains req)) ''password'' =
     trim (field (req_body req) ''password'')"
  "field (req_body (run_chains signup_post_chains req)) ''confirmpassword'' =
     trim (field (req_body req) ''confirmpassword'')"
  by (simp_all add: signup_chains_body field_set_field)

lemma signup_chains_errors:
  "validationResult (run_chains signup_post_chains req) =
     (if isAlpha (trim (field (req_body req) ''firstname'')) then []
      else [\<lparr>value = Some (trim (field (req_body req) ''firstname'')),
             msg = ''Invalid first name'', param = ''firstname'', location = Some ''body''\<rparr>]) @
     (if isAlpha (trim (field (req_body req) ''lastname'')) then []
      else [\<lparr>value = Some (trim (field (req_body req) ''lastname'')),
             msg = ''Invalid last name'', param = ''lastname'', location = Some ''body''\<rparr>]) @
     (if isAlphanumeric (trim (field (req_body req) ''username'')) then []
      else [\<lparr>value = Some (trim (field (req_body req) ''username'')),
             msg = ''Invalid username'', param = ''username'', location = Some ''body''\<rparr>]) @
     (if 6 \<le> length (trim (field (req_body req) ''password'')) then []
      else [\<lparr>value = Some (trim (field (req_body req) ''password'')),
             msg = ''Invalid password'', param = ''password'', location = Some ''body''\<rparr>]) @
     (if trim (field (req_body req) ''confirmpassword'') = trim (field (req_body req) ''password'')
      then []
      else [\<lparr>value = Some (trim (field (req_body req) ''confirmpassword'')),
             msg = ''Password confirmation does not match password'',
             param = ''confirmpassword'', location = Some ''body''\<rparr>])"
  by (simp add: validationResult_def run_chains_def signup_post_chains_def chain_simps
      on_arrival_def standard_def isLength_def)

lemma create_chains_user: "req_user (run_chains message_create_post_chains req) = req_user req"
  by (simp add: run_chains_def message_create_post_chains_def chain_simps on_arrival_def
      escape_all_def)

lemma create_chains_body:
  "req_body (run_chains message_create_post_chains req) =
     map (\<lambda>(k, v). (k, escape v))
       (set_field ''message'' (trim (field (req_body req) ''message''))
         (set_field ''title'' (trim (field (req_body req) ''title'')) (req_body req)))"
  by (simp add: run_chains_def message_create_post_chains_def chain_simps on_arrival_def
      escape_all_def)

lemma create_chains_errors:
  "validationResult (run_chains message_create_post_chains req) =
     (if trim (field (req_body req) ''title'') = [] then
        [\<lparr>value = Some [], msg = ''Invalid title'', param = ''title'',
          location = Some ''body''\<rparr>]
      else []) @
     (if trim (field (req_body req) ''message'') = [] then
        [\<lparr>value = Some [], msg = ''Invalid message'', param = ''message'',
          location = Some ''body''\<rparr>]
      else [])"
  by (auto simp add: validationResult_def run_chains_def message_create_post_chains_def
      chain_simps on_arrival_def escape_all_def standard_def isLength_def Suc_le_eq)

lemma membership_chains_user:
  "req_user (run_chains (membership_post_chains e) req) = req_user req"
  by (simp add: run_chains_def membership_post_chains_def chain_simps on_arrival_def)

lemma membership_chains_errors:
  "validationResult (run_chains (membership_post_chains e) req) =
     (if MEMBER_SECRET e = Some (trim (field (req_body req) ''password'')) then []
      else [\<lparr>value = Some (trim (field (req_body req) ''password'')),
             msg = ''Sorry, password is incorrect.'', param = ''password'',
             location = Some ''body''\<rparr>])"
  by (auto simp add: validationResult_def run_chains_def membership_post_chains_def chain_simps
      on_arrival_def)

subsection \<open>The signup handler on a request that fails validation\<close>

lemma signup_invalid:
  "validationResult (run_chains signup_post_chains req) \<noteq> [] \<Longrightarrow>
   signup_post e req d =
     ([Render ''signup_form''
         [(''title'', Str ''Sign Up''),
          (''user'', Body (req_body (run_chains signup_post_chains req))),
          (''errors'', Errors (validationResult (run_chains signup_post_chains req)))]], d)"
  by (simp add: signup_post_def signup_post_handler_def Let_def)

lemma signup_repeat:
  "validationResult (run_chains signup_post_chains req) \<noteq> [] \<Longrightarrow>
   foldl (\<lambda>d' e'. snd (signup_post e' req d')) d es = d"
  by (induction es) (simp_all add: signup_invalid)

subsection \<open>When a collaborator fails\<close>

text \<open>
  A failure of bcryptjs or of the store is passed to \<^verbatim>\<open>next\<close>, and the store is left as
  it was. The claims below are about requests for which the operations involved succeed.
\<close>

lemma signup_post_hash_fails:
  assumes "validationResult (run_chains signup_post_chains req) = []"
    and "faults e Bcrypt_hash = Some err"
  shows "signup_post e req d = ([Next err], d)"
  using assms
  by (simp add: signup_post_def signup_post_handler_def Let_def hash_password_def)

lemma signup_post_lookup_fails:
  assumes "validationResult (run_chains signup_post_chains req) = []"
    and "faults e Bcrypt_hash = None" and "faults e User_findOne = Some err"
  shows "signup_post e req d = ([Next err], d)"
  using assms
  by (simp add: signup_post_def signup_post_handler_def Let_def hash_password_def
      findOne_user_def)

lemma signup_post_store_kept_or_grown:
  "snd (signup_post e req d) = d \<or> (\<exists>u. snd (signup_post e req d) = d\<lparr>users := users d @ [u]\<rparr>)"
  by (auto simp add: signup_post_def signup_post_handler_def Let_def hash_password_def
      findOne_user_def save_new_user_def split: sum.splits option.splits)

lemma membership_post_lookup_fails:
  assumes "MEMBER_SECRET e = Some (trim (field (req_body req) ''password''))"
    and "faults e User_findById = Some err"
  shows "membership_post e req d = ([Next err], d)"
  using assms
  by (simp add: membership_post_def membership_post_handler_def Let_def
      membership_chains_errors findById_user_def)

lemma message_delete_post_fails:
  assumes "req_user req \<noteq> None" and "faults e Message_findByIdAndRemove = Some err"
  shows "message_delete_post e req d = ([Next err], d)"
  using assms
  by (simp add: message_delete_post_def findByIdAndRemove_message_def)

text \<open>
  An authenticated submission with a title and a text stores one message, of the session
  user, with the trimmed and escaped title and text.
\<close>

lemma message_create_post_creates:
  assumes "req_user req = Some u"
    and "trim (field (req_body req) ''title'') \<noteq> []"
    and "trim (field (req_body req) ''message'') \<noteq> []"
    and "faults e Message_save = None"
  shows "message_create_post e req d =
           ([Redirect ''/''],
            d\<lparr>messages := messages d @
                 [\<lparr>mid = new_ObjectId e, msg_user = oid u,
                   msg_title = escape (trim (field (req_body req) ''title'')),
                   msg_text = escape (trim (field (req_body req) ''message''))\<rparr>]\<rparr>)"
  using assms
  by (simp add: message_create_post_def message_create_post_handler_def Let_def
      create_message_def create_chains_user create_chains_body create_chains_errors
      save_new_message_def field_escaped field_set_field)

section \<open>The claims\<close>

text \<open>
  Where a claim fails as it is stated, a closed counterexample on the example store comes
  first, then the amended claim and its proof.
\<close>

subsection \<open>Signing up\<close>

text \<open>
  Claim C4, as stated, fails: the confirmation is compared with the password after both
  have been trimmed. The password \<^verbatim>\<open>secret1\<close> and the confirmation \<^verbatim>\<open>secret1\<close>
  followed by a space are different strings, and the submission passes validation all the
  same: a user is created and the answer is the redirect to \<^verbatim>\<open>/login\<close>.
\<close>

theorem signup_post_padded_confirmation_counterexample:
  "field (req_body (signup_request ''John'' ''newuser'' ''secret1'' ''secret1 ''))
     ''confirmpassword'' \<noteq>
   field (req_body (signup_request ''John'' ''newuser'' ''secret1'' ''secret1 '')) ''password''
   \<and> faults example_env Bcrypt_hash = None
   \<and> faults example_env User_findOne = None
   \<and> faults example_env User_save = None
   \<and> signup_post example_env (signup_request ''John'' ''newuser'' ''secret1'' ''secret1 '')
       example_db =
       ([Redirect ''/login''],
        \<lparr>users =
           [alice, bob,
            \<lparr>oid = ''0009'', first_name = ''John'', last_name = ''Doe'', username = ''newuser'',
              password = ''$2a$10$1terces'', membership_status = False\<rparr>],
         messages = [hello]\<rparr>)"
  by (simp add: signup_post_def signup_post_handler_def signup_chains_errors signup_chains_body
      hash_password_def findOne_user_def save_new_user_def Let_def field_set_field
      examples signup_request_def validator_defs)

text \<open>
  Claim C4, amended. A signup submission that fails field validation, each field taken
  after trimming (a first or last name that is not alphabetic, a username that is not
  alphanumeric, a password shorter than six characters, or a confirmation different from
  the password), creates no user and writes nothing: the store is returned as it was. The
  form is rendered again with the request body, which holds the submitted values as the
  chains left them (trimmed), and the error of each field that failed. Repeating the
  submission any number of times, in whatever environments \<open>es\<close>, leaves the store as it
  was.
\<close>

theorem signup_post_invalid_no_write:
  fixes req :: request and e :: env and d :: db and es :: "env list"
  defines "fn \<equiv> trim (field (req_body req) ''firstname'')"
    and "ln \<equiv> trim (field (req_body req) ''lastname'')"
    and "un \<equiv> trim (field (req_body req) ''username'')"
    and "pw \<equiv> trim (field (req_body req) ''password'')"
    and "cpw \<equiv> trim (field (req_body req) ''confirmpassword'')"
  assumes invalid:
    "\<not> isAlpha fn \<or> \<not> isAlpha ln \<or> \<not> isAlphanumeric un \<or> length pw < 6 \<or> cpw \<noteq> pw"
  shows "signup_post e req d =
           ([Render ''signup_form''
               [(''title'', Str ''Sign Up''),
                (''user'',
                 Body (set_field ''confirmpassword'' cpw (set_field ''password'' pw
                        (set_field ''username'' un (set_field ''lastname'' ln
                          (set_field ''firstname'' fn (req_body req))))))),
                (''errors'',
                 Errors
                   ((if isAlpha fn then []
                     else [\<lparr>value = Some fn, msg = ''Invalid first name'',
                            param = ''firstname'', location = Some ''body''\<rparr>]) @
                    (if isAlpha ln then []
                     else [\<lparr>value = Some ln, msg = ''Invalid last name'',
                            param = ''lastname'', location = Some ''body''\<rparr>]) @
                    (if isAlphanumeric un then []
                     else [\<lparr>value = Some un, msg = ''Invalid username'',
                            param = ''username'', location = Some ''body''\<rparr>]) @
                    (if 6 \<le> length pw then []
                     else [\<lparr>value = Some pw, msg = ''Invalid password'',
                            param = ''password'', location = Some ''body''\<rparr>]) @
                    (if cpw = pw then []
                     else [\<lparr>value = Some cpw,
                            msg = ''Password confirmation does not match password'',
                            param = ''confirmpassword'', location = Some ''body''\<rparr>])))]], d)
       \<and> foldl (\<lambda>d' e'. snd (signup_post e' req d')) d es = d"
    (is "?rendered \<and> ?repeated")
proof -
  have failed: "validationResult (run_chains signup_post_chains req) \<noteq> []"
    using invalid unfolding signup_chains_errors fn_def ln_def un_def pw_def cpw_def
    by (auto simp: not_le)
  have ?rendered
    unfolding fn_def ln_def un_def pw_def cpw_def
    using signup_invalid [OF failed, of e d]
    by (simp only: signup_chains_body signup_chains_errors)
  moreover have ?repeated
    using failed by (rule signup_repeat)
  ultimately show ?thesis by (rule conjI)
qed

text \<open>Scenario A of the spec: the first name \<^verbatim>\<open>Jo1n\<close>, submitted twice.\<close>

theorem signup_post_invalid_no_write_witness:
  "(\<not> isAlpha (trim (field (req_body (signup_request ''Jo1n'' ''newuser'' ''secret1'' ''secret1'')) ''firstname'')))
   \<and> signup_post example_env (signup_request ''Jo1n'' ''newuser'' ''secret1'' ''secret1'') example_db =
       ([Render ''signup_form''
           [(''title'', Str ''Sign Up''),
            (''user'',
             Body [(''firstname'', ''Jo1n''), (''lastname'', ''Doe''), (''username'', ''newuser''),
                   (''password'', ''secret1''), (''confirmpassword'', ''secret1'')]),
            (''errors'',
             Errors [\<lparr>value = Some ''Jo1n'', msg = ''Invalid first name'', param = ''firstname'',
                      location = Some ''body''\<rparr>])]],
        example_db)
   \<and> foldl (\<lambda>d' e'. snd (signup_post e' (signup_request ''Jo1n'' ''newuser'' ''secret1'' ''secret1'') d'))
        example_db [example_env, padded_env] = example_db"
proof -
  have digit:
    "\<not> isAlpha (trim (field (req_body (signup_request ''Jo1n'' ''newuser'' ''secret1'' ''secret1''))
                        ''firstname''))"
    by (simp add: signup_request_def validator_defs)
  then have invalid:
    "\<not> isAlpha (trim (field (req_body (signup_request ''Jo1n'' ''newuser'' ''secret1'' ''secret1'')) ''firstname''))
     \<or> \<not> isAlpha (trim (field (req_body (signup_request ''Jo1n'' ''newuser'' ''secret1'' ''secret1'')) ''lastname''))
     \<or> \<not> isAlphanumeric (trim (field (req_body (signup_request ''Jo1n'' ''newuser'' ''secret1'' ''secret1'')) ''username''))
     \<or> length (trim (field (req_body (signup_request ''Jo1n'' ''newuser'' ''secret1'' ''secret1'')) ''password'')) < 6
     \<or> trim (field (req_body (signup_request ''Jo1n'' ''newuser'' ''secret1'' ''secret1'')) ''confirmpassword'')
         \<noteq> trim (field (req_body (signup_request ''Jo1n'' ''newuser'' ''secret1'' ''secret1'')) ''password'')"
    by (rule disjI1)
  note both =
    signup_post_invalid_no_write [OF invalid, of example_env example_db "[example_env, padded_env]"]
  have rendered:
    "signup_post example_env (signup_request ''Jo1n'' ''newuser'' ''secret1'' ''secret1'') example_db =
       ([Render ''signup_form''
           [(''title'', Str ''Sign Up''),
            (''user'',
             Body [(''firstname'', ''Jo1n''), (''lastname'', ''Doe''), (''username'', ''newuser''),
                   (''password'', ''secret1''), (''confirmpassword'', ''secret1'')]),
            (''errors'',
             Errors [\<lparr>value = Some ''Jo1n'', msg = ''Invalid first name'', param = ''firstname'',
                      location = Some ''body''\<rparr>])]],
        example_db)"
    using both [THEN conjunct1] by (simp add: signup_request_def validator_defs)
  from digit rendered both [THEN conjunct2] show ?thesis
    by (intro conjI)
qed

text \<open>
  Claim C2, as stated, fails: the handler looks up the username it reads from the request
  body, which the chain has trimmed. Bob is registered; a valid submission with the
  username \<^verbatim>\<open>bob\<close> followed by a space passes validation and names a string that no user
  of the store has, and still no user is persisted: the form comes back with "Username
  already in use.".
\<close>

theorem signup_post_padded_username_counterexample:
  "validationResult
     (run_chains signup_post_chains (signup_request ''John'' ''bob '' ''secret1'' ''secret1'')) = []
   \<and> field (req_body (signup_request ''John'' ''bob '' ''secret1'' ''secret1'')) ''username'' = ''bob ''
   \<and> ''bob '' \<notin> set (map username (users example_db))
   \<and> faults example_env Bcrypt_hash = None
   \<and> faults example_env User_findOne = None
   \<and> faults example_env User_save = None
   \<and> signup_post example_env (signup_request ''John'' ''bob '' ''secret1'' ''secret1'') example_db =
       ([Render ''signup_form''
           [(''title'', Str ''Sign Up''),
            (''user'',
             Body [(''firstname'', ''John''), (''lastname'', ''Doe''), (''username'', ''bob''),
                   (''password'', ''secret1''), (''confirmpassword'', ''secret1'')]),
            (''errors'',
             Errors [\<lparr>value = None, msg = ''Username already in use.'', param = ''username'',
                      location = None\<rparr>])]],
        example_db)"
  by (simp add: signup_post_def signup_post_handler_def signup_chains_errors signup_chains_body
      hash_password_def findOne_user_def Let_def field_set_field
      examples signup_request_def validator_defs)

text \<open>
  Claim C2, amended. For every signup submission that passes field validation and whose
  username, trimmed of surrounding whitespace, is not already in the store, when the hash
  and the two store operations succeed, exactly one user is persisted, after the users
  already there: it has the trimmed names and username, \<open>membership_status = False\<close>, and
  its password field is set from the hash bcryptjs returned for the trimmed password with
  10 rounds, not from the password. The response is a redirect to \<^verbatim>\<open>/login\<close>.
\<close>

theorem signup_post_creates_user:
  fixes req :: request and e :: env and d :: db
  defines "fn \<equiv> trim (field (req_body req) ''firstname'')"
    and "ln \<equiv> trim (field (req_body req) ''lastname'')"
    and "un \<equiv> trim (field (req_body req) ''username'')"
    and "pw \<equiv> trim (field (req_body req) ''password'')"
    and "cpw \<equiv> trim (field (req_body req) ''confirmpassword'')"
  assumes valid: "isAlpha fn" "isAlpha ln" "isAlphanumeric un" "6 \<le> length pw" "cpw = pw"
    and fresh: "find (\<lambda>x. username x = un) (users d) = None"
    and works: "faults e Bcrypt_hash = None" "faults e User_findOne = None"
      "faults e User_save = None"
  shows "signup_post e req d =
           ([Redirect ''/login''],
            d\<lparr>users := users d @
                 [\<lparr>oid = new_ObjectId e, first_name = fn, last_name = ln, username = un,
                   password = bcrypt_hash e pw 10, membership_status = False\<rparr>]\<rparr>)"
proof -
  have passed: "validationResult (run_chains signup_post_chains req) = []"
    using valid unfolding signup_chains_errors fn_def ln_def un_def pw_def cpw_def by simp
  show ?thesis
    using passed fresh works
    by (simp add: signup_post_def signup_post_handler_def Let_def signup_chains_fields
        hash_password_def findOne_user_def save_new_user_def fn_def ln_def un_def pw_def)
qed

text \<open>Scenario B of the spec: \<^verbatim>\<open>newuser\<close> with the password \<^verbatim>\<open>secret1\<close>.\<close>

theorem signup_post_creates_user_witness:
  "isAlpha (trim (field (req_body (signup_request ''John'' ''newuser'' ''secret1'' ''secret1'')) ''firstname''))
   \<and> isAlpha (trim (field (req_body (signup_request ''John'' ''newuser'' ''secret1'' ''secret1'')) ''lastname''))
   \<and> isAlphanumeric (trim (field (req_body (signup_request ''John'' ''newuser'' ''secret1'' ''secret1'')) ''username''))
   \<and> 6 \<le> length (trim (field (req_body (signup_request ''John'' ''newuser'' ''secret1'' ''secret1'')) ''password''))
   \<and> trim (field (req_body (signup_request ''John'' ''newuser'' ''secret1'' ''secret1'')) ''confirmpassword'')
       = trim (field (req_body (signup_request ''John'' ''newuser'' ''secret1'' ''secret1'')) ''password'')
   \<and> find (\<lambda>x. username x =
               trim (field (req_body (signup_request ''John'' ''newuser'' ''secret1'' ''secret1'')) ''username''))
        (users example_db) = None
   \<and> faults example_env Bcrypt_hash = None
   \<and> faults example_env User_findOne = None
   \<and> faults example_env User_save = None
   \<and> signup_post example_env (signup_request ''John'' ''newuser'' ''secret1'' ''secret1'') example_db =
       ([Redirect ''/login''],
        \<lparr>users =
           [alice, bob,
            \<lparr>oid = ''0009'', first_name = ''John'', last_name = ''Doe'', username = ''newuser'',
              password = ''$2a$10$1terces'', membership_status = False\<rparr>],
         messages = [hello]\<rparr>)"
proof -
  have valid:
    "isAlpha (trim (field (req_body (signup_request ''John'' ''newuser'' ''secret1'' ''secret1'')) ''firstname''))"
    "isAlpha (trim (field (req_body (signup_request ''John'' ''newuser'' ''secret1'' ''secret1'')) ''lastname''))"
    "isAlphanumeric (trim (field (req_body (signup_request ''John'' ''newuser'' ''secret1'' ''secret1'')) ''username''))"
    "6 \<le> length (trim (field (req_body (signup_request ''John'' ''newuser'' ''secret1'' ''secret1'')) ''password''))"
    "trim (field (req_body (signup_request ''John'' ''newuser'' ''secret1'' ''secret1'')) ''confirmpassword'')
       = trim (field (req_body (signup_request ''John'' ''newuser'' ''secret1'' ''secret1'')) ''password'')"
    by (simp_all add: signup_request_def validator_defs)
  have fresh:
    "find (\<lambda>x. username x =
              trim (field (req_body (signup_request ''John'' ''newuser'' ''secret1'' ''secret1'')) ''username''))
       (users example_db) = None"
    by (simp add: examples signup_request_def validator_defs)
  have works:
    "faults example_env Bcrypt_hash = None" "faults example_env User_findOne = None"
    "faults example_env User_save = None"
    by (simp_all add: example_env_def)
  show ?thesis
    using valid fresh works signup_post_creates_user [OF valid fresh works]
    by (simp add: examples signup_request_def validator_defs)
qed




subsection \<open>Creating a message\<close>

text \<open>
  Claim C1. An unauthenticated POST to the message-creation handler is answered with a
  redirect to the login page, and the handler does not stop there: it goes on to the
  validation result. With an empty title or text (after trimming) it also renders the form
  with the errors; with valid fields it goes on to the creation of the message, the same
  \<open>create_message\<close> an authenticated request reaches. That attempt ends where it reads
  \<^verbatim>\<open>req.user.id\<close>: the session user is absent, a \<^verbatim>\<open>TypeError\<close> is thrown, and the
  store is as it was.
\<close>

theorem message_create_post_unauthenticated_goes_on:
  assumes "req_user req = None"
  shows "(trim (field (req_body req) ''title'') = [] \<or>
          trim (field (req_body req) ''message'') = [] \<longrightarrow>
            fst (message_create_post e req d) =
              [Redirect ''/login'',
               Render ''message_form''
                 [(''title'', Str ''Create Message''), (''user'', SessionUser None),
                  (''message'', Body (req_body (run_chains message_create_post_chains req))),
                  (''errors'',
                   Errors (validationResult (run_chains message_create_post_chains req)))]])
       \<and> (trim (field (req_body req) ''title'') \<noteq> [] \<and>
          trim (field (req_body req) ''message'') \<noteq> [] \<longrightarrow>
            fst (message_create_post e req d) =
              Redirect ''/login'' #
              fst (create_message e (run_chains message_create_post_chains req) d) \<and>
            fst (create_message e (run_chains message_create_post_chains req) d) =
              [Throw TypeError])
       \<and> snd (message_create_post e req d) = d"
  using assms
  by (auto simp add: message_create_post_def message_create_post_handler_def Let_def
      create_message_def create_chains_user create_chains_errors split: prod.splits)

text \<open>An anonymous request with a title and a text: the redirect, then the \<^verbatim>\<open>TypeError\<close>.\<close>

theorem message_create_post_unauthenticated_goes_on_witness:
  "req_user (create_request None ''Hi'' ''to all'') = None
   \<and> trim (field (req_body (create_request None ''Hi'' ''to all'')) ''title'') \<noteq> []
   \<and> trim (field (req_body (create_request None ''Hi'' ''to all'')) ''message'') \<noteq> []
   \<and> fst (message_create_post example_env (create_request None ''Hi'' ''to all'') example_db) =
       [Redirect ''/login'', Throw TypeError]
   \<and> snd (message_create_post example_env (create_request None ''Hi'' ''to all'') example_db) =
       example_db"
proof -
  have anonymous: "req_user (create_request None ''Hi'' ''to all'') = None"
    by (simp add: create_request_def)
  have filled:
    "trim (field (req_body (create_request None ''Hi'' ''to all'')) ''title'') \<noteq> []"
    "trim (field (req_body (create_request None ''Hi'' ''to all'')) ''message'') \<noteq> []"
    by (simp_all add: create_request_def validator_defs)
  show ?thesis
    using anonymous filled
      message_create_post_unauthenticated_goes_on [OF anonymous, of example_env example_db]
    by simp
qed

text \<open>
  Claim C5. A message-creation submission by an authenticated caller whose title, or whose
  text, is empty after trimming creates no message: the store is returned as it was, and
  the form is rendered again with the request body (the submitted fields, title and text
  trimmed and every field HTML-escaped) and one error for each empty field.
\<close>

theorem message_create_post_empty_field:
  assumes "req_user req = Some u"
    and "trim (field (req_body req) ''title'') = [] \<or>
         trim (field (req_body req) ''message'') = []"
  shows "message_create_post e req d =
           ([Render ''message_form''
               [(''title'', Str ''Create Message''), (''user'', SessionUser (Some u)),
                (''message'',
                 Body (map (\<lambda>(k, v). (k, escape v))
                        (set_field ''message'' (trim (field (req_body req) ''message''))
                          (set_field ''title'' (trim (field (req_body req) ''title''))
                            (req_body req))))),
                (''errors'',
                 Errors
                   ((if trim (field (req_body req) ''title'') = [] then
                       [\<lparr>value = Some [], msg = ''Invalid title'', param = ''title'',
                         location = Some ''body''\<rparr>]
                     else []) @
                    (if trim (field (req_body req) ''message'') = [] then
                       [\<lparr>value = Some [], msg = ''Invalid message'', param = ''message'',
                         location = Some ''body''\<rparr>]
                     else [])))]], d)"
  using assms
  by (auto simp add: message_create_post_def message_create_post_handler_def Let_def
      create_chains_user create_chains_body create_chains_errors)

text \<open>Alice sends a title of two spaces and a text with markup.\<close>

theorem message_create_post_empty_field_witness:
  "req_user (create_request (Some alice) ''  '' ''<b>hi</b>'') = Some alice
   \<and> (trim (field (req_body (create_request (Some alice) ''  '' ''<b>hi</b>'')) ''title'') = [] \<or>
      trim (field (req_body (create_request (Some alice) ''  '' ''<b>hi</b>'')) ''message'') = [])
   \<and> message_create_post example_env (create_request (Some alice) ''  '' ''<b>hi</b>'') example_db =
       ([Render ''message_form''
           [(''title'', Str ''Create Message''), (''user'', SessionUser (Some alice)),
            (''message'', Body [(''title'', []), (''message'', ''&lt;b&gt;hi&lt;&#x2F;b&gt;'')]),
            (''errors'',
             Errors [\<lparr>value = Some [], msg = ''Invalid title'', param = ''title'',
                      location = Some ''body''\<rparr>])]],
        example_db)"
proof -
  have session: "req_user (create_request (Some alice) ''  '' ''<b>hi</b>'') = Some alice"
    by (simp add: create_request_def)
  have empty:
    "trim (field (req_body (create_request (Some alice) ''  '' ''<b>hi</b>'')) ''title'') = [] \<or>
     trim (field (req_body (create_request (Some alice) ''  '' ''<b>hi</b>'')) ''message'') = []"
    by (simp add: create_request_def validator_defs)
  show ?thesis
    using session empty
      message_create_post_empty_field [OF session empty, of example_env example_db]
    by (simp add: create_request_def validator_defs)
qed

subsection \<open>Unlocking membership\<close>

text \<open>
  Claim C6, as stated, fails: the chain compares the trimmed password with the secret. When
  the configured secret starts with a space, a submission whose password equals the secret,
  made by Alice, whose record is in the store, is rejected: the form comes back with
  "Sorry, password is incorrect." and her record is as it was.
\<close>

theorem membership_post_padded_secret_counterexample:
  "MEMBER_SECRET padded_env =
     Some (field (req_body (membership_request (Some alice) '' s3cret'')) ''password'')
   \<and> req_user (membership_request (Some alice) '' s3cret'') = Some alice
   \<and> alice \<in> set (users example_db)
   \<and> faults padded_env User_findById = None
   \<and> faults padded_env User_save = None
   \<and> membership_post padded_env (membership_request (Some alice) '' s3cret'') example_db =
       ([Render ''membership_form''
           [(''title'', Str ''Membership form''), (''user'', SessionUser (Some alice)),
            (''errors'',
             Errors [\<lparr>value = Some ''s3cret'', msg = ''Sorry, password is incorrect.'',
                      param = ''password'', location = Some ''body''\<rparr>])]],
        example_db)"
  by (simp add: membership_post_def membership_post_handler_def membership_chains_user
      membership_chains_errors Let_def
      examples padded_env_def membership_request_def validator_defs)

text \<open>
  Claim C6, amended. For every membership-unlock submission whose password, trimmed of
  surrounding whitespace, equals the configured shared secret, when the lookup and the save
  succeed: if the session identity has a record in the store, that record's
  \<open>membership_status\<close> is set to true and persisted (looking the user up afterwards gives
  the record with the status set) and the response is a redirect to home; if no record is
  found, the error "User not found" with status 404 is passed on and the store is as it was.
\<close>

theorem membership_post_accepted:
  assumes accepted: "MEMBER_SECRET e = Some (trim (field (req_body req) ''password''))"
    and works: "faults e User_findById = None" "faults e User_save = None"
  shows "(req_user req = Some su \<and> find (\<lambda>x. oid x = oid su) (users d) = Some u \<longrightarrow>
            fst (membership_post e req d) = [Redirect ''/''] \<and>
            find (\<lambda>x. oid x = oid su) (users (snd (membership_post e req d))) =
              Some (u\<lparr>membership_status := True\<rparr>))
       \<and> ((\<forall>s. req_user req = Some s \<longrightarrow> find (\<lambda>x. oid x = oid s) (users d) = None) \<longrightarrow>
            membership_post e req d = ([Next (Error ''User not found'' (Some 404))], d))"
    (is "?unlocked \<and> ?missing")
proof -
  have passed: "validationResult (run_chains (membership_post_chains e) req) = []"
    using accepted by (simp add: membership_chains_errors)
  have ?unlocked
  proof
    assume session: "req_user req = Some su \<and> find (\<lambda>x. oid x = oid su) (users d) = Some u"
    then have same: "oid u = oid su"
      by (auto dest: find_holds)
    then have "find (\<lambda>x. oid x = oid su)
                 (replace_first (\<lambda>x. oid x = oid su) (u\<lparr>membership_status := True\<rparr>) (users d)) =
               Some (u\<lparr>membership_status := True\<rparr>)"
      using session by (intro find_replace_first [where u = u]) simp_all
    with session passed works same
    show "fst (membership_post e req d) = [Redirect ''/''] \<and>
          find (\<lambda>x. oid x = oid su) (users (snd (membership_post e req d))) =
            Some (u\<lparr>membership_status := True\<rparr>)"
      by (simp add: membership_post_def membership_post_handler_def Let_def
          membership_chains_user findById_user_def save_user_def)
  qed
  moreover have ?missing
    using passed works
    by (auto simp add: membership_post_def membership_post_handler_def Let_def
        membership_chains_user findById_user_def split: option.splits)
  ultimately show ?thesis by (rule conjI)
qed

text \<open>Scenario E of the spec: Alice sends the secret.\<close>

theorem membership_post_accepted_witness:
  "MEMBER_SECRET example_env =
     Some (trim (field (req_body (membership_request (Some alice) ''s3cret'')) ''password''))
   \<and> faults example_env User_findById = None
   \<and> faults example_env User_save = None
   \<and> req_user (membership_request (Some alice) ''s3cret'') = Some alice
   \<and> find (\<lambda>x. oid x = oid alice) (users example_db) = Some alice
   \<and> fst (membership_post example_env (membership_request (Some alice) ''s3cret'') example_db) =
       [Redirect ''/'']
   \<and> find (\<lambda>x. oid x = oid alice)
        (users (snd (membership_post example_env (membership_request (Some alice) ''s3cret'')
                       example_db))) =
       Some (alice\<lparr>membership_status := True\<rparr>)"
proof -
  have accepted:
    "MEMBER_SECRET example_env =
       Some (trim (field (req_body (membership_request (Some alice) ''s3cret'')) ''password''))"
    by (simp add: examples membership_request_def validator_defs)
  have works: "faults example_env User_findById = None" "faults example_env User_save = None"
    by (simp_all add: example_env_def)
  have session:
    "req_user (membership_request (Some alice) ''s3cret'') = Some alice \<and>
     find (\<lambda>x. oid x = oid alice) (users example_db) = Some alice"
    by (simp add: examples membership_request_def)
  from membership_post_accepted [OF accepted works, of alice example_db alice, THEN conjunct1]
    session accepted works
  show ?thesis by blast
qed

text \<open>
  Claim C7, as stated, fails: the secret followed by a space differs from the secret, and is
  accepted all the same, since the chain trims it. Alice, not yet a member, becomes one.
\<close>

theorem membership_post_trailing_space_counterexample:
  "MEMBER_SECRET example_env \<noteq>
     Some (field (req_body (membership_request (Some alice) ''s3cret '')) ''password'')
   \<and> membership_status alice = False
   \<and> membership_post example_env (membership_request (Some alice) ''s3cret '') example_db =
       ([Redirect ''/''],
        \<lparr>users = [alice\<lparr>membership_status := True\<rparr>, bob], messages = [hello]\<rparr>)"
  by (simp add: membership_post_def membership_post_handler_def membership_chains_user
      membership_chains_errors findById_user_def save_user_def Let_def
      examples membership_request_def validator_defs)

text \<open>
  Claim C7, amended. For every membership-unlock submission whose password, trimmed of
  surrounding whitespace, differs from the configured shared secret (or when no secret is
  configured), the form is rendered again with the single error "Sorry, password is
  incorrect." and the store is returned as it was: no user record is modified, the session
  user's \<open>membership_status\<close> included.
\<close>

theorem membership_post_rejected:
  assumes "MEMBER_SECRET e \<noteq> Some (trim (field (req_body req) ''password''))"
  shows "membership_post e req d =
           ([Render ''membership_form''
               [(''title'', Str ''Membership form''), (''user'', SessionUser (req_user req)),
                (''errors'',
                 Errors [\<lparr>value = Some (trim (field (req_body req) ''password'')),
                          msg = ''Sorry, password is incorrect.'', param = ''password'',
                          location = Some ''body''\<rparr>])]], d)"
  using assms
  by (simp add: membership_post_def membership_post_handler_def Let_def
      membership_chains_user membership_chains_errors)

text \<open>Scenario D of the spec: Alice sends a wrong password.\<close>

theorem membership_post_rejected_witness:
  "MEMBER_SECRET example_env \<noteq>
     Some (trim (field (req_body (membership_request (Some alice) '' guess '')) ''password''))
   \<and> membership_post example_env (membership_request (Some alice) '' guess '') example_db =
       ([Render ''membership_form''
           [(''title'', Str ''Membership form''), (''user'', SessionUser (Some alice)),
            (''errors'',
             Errors [\<lparr>value = Some ''guess'', msg = ''Sorry, password is incorrect.'',
                      param = ''password'', location = Some ''body''\<rparr>])]],
        example_db)"
proof -
  have wrong:
    "MEMBER_SECRET example_env \<noteq>
       Some (trim (field (req_body (membership_request (Some alice) '' guess '')) ''password''))"
    by (simp add: examples membership_request_def validator_defs)
  show ?thesis
    using wrong membership_post_rejected [OF wrong, of example_db]
    by (simp add: examples membership_request_def validator_defs)
qed

text \<open>
  Claim C9, as stated, fails in its last part: a password that is not the secret is not
  always answered with the form. Nobody is logged in and the secret followed by a space is
  sent; the chain trims it and accepts it, and the handler passes on "User not found".
\<close>

theorem membership_post_unauthenticated_counterexample:
  "req_user (membership_request None ''s3cret '') = None
   \<and> MEMBER_SECRET example_env \<noteq>
       Some (field (req_body (membership_request None ''s3cret '')) ''password'')
   \<and> faults example_env User_findById = None
   \<and> membership_post example_env (membership_request None ''s3cret '') example_db =
       ([Next (Error ''User not found'' (Some 404))], example_db)"
  by (simp add: membership_post_def membership_post_handler_def membership_chains_user
      membership_chains_errors findById_user_def Let_def
      examples membership_request_def validator_defs)

text \<open>
  Claim C9, amended. The membership-unlock handler has no check of the session: an
  unauthenticated POST is never redirected to the login page. With a password that, trimmed
  of surrounding whitespace, equals the secret, the handler looks up the user of the absent
  session identity, finds none, and (the lookup succeeding) passes on the error "User not
  found" with status 404; with any other password it renders the form again.
\<close>

theorem membership_post_unauthenticated:
  assumes "req_user req = None"
  shows "(MEMBER_SECRET e = Some (trim (field (req_body req) ''password'')) \<and>
          faults e User_findById = None \<longrightarrow>
            membership_post e req d = ([Next (Error ''User not found'' (Some 404))], d))
       \<and> (MEMBER_SECRET e \<noteq> Some (trim (field (req_body req) ''password'')) \<longrightarrow>
            membership_post e req d =
              ([Render ''membership_form''
                  [(''title'', Str ''Membership form''), (''user'', SessionUser None),
                   (''errors'',
                    Errors [\<lparr>value = Some (trim (field (req_body req) ''password'')),
                             msg = ''Sorry, password is incorrect.'', param = ''password'',
                             location = Some ''body''\<rparr>])]], d))
       \<and> Redirect ''/login'' \<notin> set (fst (membership_post e req d))"
  using assms
  by (auto simp add: membership_post_def membership_post_handler_def Let_def
      membership_chains_user membership_chains_errors findById_user_def split: option.splits)

text \<open>Nobody is logged in, and the secret is sent.\<close>

theorem membership_post_unauthenticated_witness:
  "req_user (membership_request None ''s3cret'') = None
   \<and> MEMBER_SECRET example_env =
       Some (trim (field (req_body (membership_request None ''s3cret'')) ''password''))
   \<and> faults example_env User_findById = None
   \<and> membership_post example_env (membership_request None ''s3cret'') example_db =
       ([Next (Error ''User not found'' (Some 404))], example_db)
   \<and> Redirect ''/login'' \<notin>
       set (fst (membership_post example_env (membership_request None ''s3cret'') example_db))"
proof -
  have anonymous: "req_user (membership_request None ''s3cret'') = None"
    by (simp add: membership_request_def)
  have correct:
    "MEMBER_SECRET example_env =
       Some (trim (field (req_body (membership_request None ''s3cret'')) ''password''))"
    by (simp add: examples membership_request_def validator_defs)
  have works: "faults example_env User_findById = None"
    by (simp add: example_env_def)
  from membership_post_unauthenticated [OF anonymous, of example_env example_db]
    anonymous correct works
  show ?thesis by blast
qed

text \<open>
  Claim C10. A successful membership unlock (the handler answers with the redirect to home)
  changes one thing: in the users collection, the record \<open>u\<close> of the session user, the first
  with that id, has its \<open>membership_status\<close> set, and its id, names, username and password
  hash are those of \<open>u\<close>. The records before it and after it are the same, and so is the
  messages collection.
\<close>

theorem membership_post_frame:
  assumes "membership_post e req d = ([Redirect ''/''], d')"
  shows "\<exists>su us1 u us2.
           req_user req = Some su \<and> oid u = oid su \<and>
           users d = us1 @ u # us2 \<and> (\<forall>x\<in>set us1. oid x \<noteq> oid su) \<and>
           users d' = us1 @ u\<lparr>membership_status := True\<rparr> # us2 \<and>
           messages d' = messages d"
proof -
  from assms obtain su u where
    session: "req_user req = Some su"
    and found: "find (\<lambda>x. oid x = oid su) (users d) = Some u"
    and saved:
      "d' = d\<lparr>users :=
                replace_first (\<lambda>x. oid x = oid u) (u\<lparr>membership_status := True\<rparr>) (users d)\<rparr>"
    by (auto simp add: membership_post_def membership_post_handler_def Let_def
        membership_chains_user findById_user_def save_user_def
        split: option.splits if_splits)
  from found have same: "oid u = oid su"
    by (auto dest: find_holds)
  from find_split [OF found, of "u\<lparr>membership_status := True\<rparr>"] obtain us1 us2 where
    "users d = us1 @ u # us2" "\<forall>x\<in>set us1. oid x \<noteq> oid su"
    "replace_first (\<lambda>x. oid x = oid su) (u\<lparr>membership_status := True\<rparr>) (users d) =
       us1 @ u\<lparr>membership_status := True\<rparr> # us2"
    by blast
  with session same saved show ?thesis by auto
qed

text \<open>Bob unlocks his membership: Alice before him and the message are untouched.\<close>

theorem membership_post_frame_witness:
  "membership_post example_env (membership_request (Some bob) ''s3cret'') example_db =
     ([Redirect ''/''], \<lparr>users = [alice, bob\<lparr>membership_status := True\<rparr>], messages = [hello]\<rparr>)
   \<and> (\<exists>su us1 u us2.
        req_user (membership_request (Some bob) ''s3cret'') = Some su \<and> oid u = oid su \<and>
        users example_db = us1 @ u # us2 \<and> (\<forall>x\<in>set us1. oid x \<noteq> oid su) \<and>
        users \<lparr>users = [alice, bob\<lparr>membership_status := True\<rparr>], messages = [hello]\<rparr> =
          us1 @ u\<lparr>membership_status := True\<rparr> # us2 \<and>
        messages \<lparr>users = [alice, bob\<lparr>membership_status := True\<rparr>], messages = [hello]\<rparr> =
          messages example_db)"
proof -
  have unlocked:
    "membership_post example_env (membership_request (Some bob) ''s3cret'') example_db =
       ([Redirect ''/''], \<lparr>users = [alice, bob\<lparr>membership_status := True\<rparr>], messages = [hello]\<rparr>)"
    by (simp add: membership_post_def membership_post_handler_def membership_chains_user
        membership_chains_errors findById_user_def save_user_def Let_def
        examples membership_request_def validator_defs)
  from unlocked membership_post_frame [OF unlocked] show ?thesis
    by (rule conjI)
qed

subsection \<open>Deleting a message\<close>

text \<open>
  Claim C8, as stated, fails: the POST handler removes by id and never asks whether
  anything was removed. Alice posts the id of a message that does not exist; no error is
  passed on, the answer is the redirect to home, and the store is as it was.
\<close>

theorem message_delete_post_absent_id_counterexample:
  "req_user (delete_request ''0404'' ''0404'') \<noteq> None
   \<and> field (req_body (delete_request ''0404'' ''0404'')) ''message'' = ''0404''
   \<and> ''0404'' \<notin> set (map mid (messages example_db))
   \<and> faults example_env Message_findByIdAndRemove = None
   \<and> message_delete_post example_env (delete_request ''0404'' ''0404'') example_db =
       ([Redirect ''/''], example_db)"
  by (simp add: message_delete_post_def findByIdAndRemove_message_def examples delete_request_def field_def)

text \<open>
  Claim C8, amended. For every authenticated request, when the store operation succeeds:
  the GET handler (the confirmation page), given a message id that does not exist in the
  message store, passes on the error "Message not found" with status 404; the POST handler,
  given an existing id, removes that message and redirects to home; the POST handler, given
  an id that does not exist, removes nothing and redirects to home as well.
\<close>

theorem message_delete_absent_and_present:
  assumes "req_user req \<noteq> None"
  shows "(faults e Message_findById = None \<and>
          find (\<lambda>x. mid x = field (req_params req) ''id'') (messages d) = None \<longrightarrow>
            message_delete_get e req d = ([Next (Error ''Message not found'' (Some 404))], d))
       \<and> (faults e Message_findByIdAndRemove = None \<and>
          find (\<lambda>x. mid x = field (req_body req) ''message'') (messages d) = Some m \<longrightarrow>
            message_delete_post e req d =
              ([Redirect ''/''], d\<lparr>messages := remove1 m (messages d)\<rparr>))
       \<and> (faults e Message_findByIdAndRemove = None \<and>
          find (\<lambda>x. mid x = field (req_body req) ''message'') (messages d) = None \<longrightarrow>
            message_delete_post e req d = ([Redirect ''/''], d))"
  using assms
  by (auto simp add: message_delete_get_def message_delete_post_def findById_message_def
      findByIdAndRemove_message_def remove_first_found remove_first_absent)

text \<open>Scenario F of the spec: Alice asks for the page of a missing message, and deletes an existing one.\<close>

theorem message_delete_absent_and_present_witness:
  "req_user (delete_request ''0404'' ''0101'') \<noteq> None
   \<and> faults example_env Message_findById = None
   \<and> find (\<lambda>x. mid x = field (req_params (delete_request ''0404'' ''0101'')) ''id'')
        (messages example_db) = None
   \<and> faults example_env Message_findByIdAndRemove = None
   \<and> find (\<lambda>x. mid x = field (req_body (delete_request ''0404'' ''0101'')) ''message'')
        (messages example_db) = Some hello
   \<and> message_delete_get example_env (delete_request ''0404'' ''0101'') example_db =
       ([Next (Error ''Message not found'' (Some 404))], example_db)
   \<and> message_delete_post example_env (delete_request ''0404'' ''0101'') example_db =
       ([Redirect ''/''], example_db\<lparr>messages := remove1 hello (messages example_db)\<rparr>)"
proof -
  have session: "req_user (delete_request ''0404'' ''0101'') \<noteq> None"
    by (simp add: delete_request_def)
  have works:
    "faults example_env Message_findById = None"
    "faults example_env Message_findByIdAndRemove = None"
    by (simp_all add: example_env_def)
  have absent:
    "find (\<lambda>x. mid x = field (req_params (delete_request ''0404'' ''0101'')) ''id'')
       (messages example_db) = None"
    by (simp add: examples delete_request_def field_def)
  have present:
    "find (\<lambda>x. mid x = field (req_body (delete_request ''0404'' ''0101'')) ''message'')
       (messages example_db) = Some hello"
    by (simp add: examples delete_request_def field_def)
  from message_delete_absent_and_present [OF session, of example_env example_db hello]
    session works absent present
  show ?thesis by blast
qed

end
